theory Spec2Isabelle
  imports Main "HOL-Library.Sublist"
begin

section \<open>The polling-service client of \<^verbatim>\<open>src/api/client.py\<close>\<close>

text \<open>
  The module offers three functions, \<^verbatim>\<open>fetch_polls\<close>, \<^verbatim>\<open>cast_vote\<close> and
  \<^verbatim>\<open>get_poll_results\<close>. Each one builds a request, hands it to the transport
  (\<^verbatim>\<open>session or requests\<close>), and turns the response into a parsed JSON value or
  into an exception. The transport and the response object belong to the
  \<^verbatim>\<open>requests\<close> library; here the transport is a parameter, and a response is the
  record of what the client reads from it.
\<close>

subsection \<open>Python strings\<close>

text \<open>
  A \<^verbatim>\<open>str\<close> is a list of characters; a character is read as the code point of
  the same number, so the strings covered are those of code points below 256.
\<close>

text \<open>\<^verbatim>\<open>str.isspace\<close> on one character with a code point below 256.\<close>

definition isspace :: "char \<Rightarrow> bool" where
  "isspace c =
     (let n = (of_char c :: nat)
      in (9 \<le> n \<and> n \<le> 13) \<or> (28 \<le> n \<and> n \<le> 32) \<or> n = 133 \<or> n = 160)"

text \<open>\<^verbatim>\<open>s.strip()\<close>: leading and trailing whitespace removed.\<close>

definition strip :: "string \<Rightarrow> string" where
  "strip s = rev (dropWhile isspace (rev (dropWhile isspace s)))"

text \<open>\<^verbatim>\<open>s.rstrip('/')\<close>: every trailing \<^verbatim>\<open>/\<close> removed.\<close>

definition rstrip_slash :: "string \<Rightarrow> string" where
  "rstrip_slash s = rev (dropWhile (\<lambda>c. c = CHR ''/'') (rev s))"

text \<open>The decimal digit of a number below ten.\<close>

definition digit :: "nat \<Rightarrow> char" where
  "digit d = char_of (48 + d)"

text \<open>\<^verbatim>\<open>str(n)\<close> for an \<^verbatim>\<open>int\<close>, as an f-string renders it: decimal, with a minus sign.\<close>

fun str_nat :: "nat \<Rightarrow> string" where
  "str_nat n = (if n < 10 then [digit n] else str_nat (n div 10) @ [digit (n mod 10)])"

declare str_nat.simps [simp del]

definition str_int :: "int \<Rightarrow> string" where
  "str_int i = (if i < 0 then CHR ''-'' # str_nat (nat (- i)) else str_nat (nat i))"

subsection \<open>JSON values\<close>

text \<open>
  What \<^verbatim>\<open>resp.json()\<close> returns and what \<^verbatim>\<open>json=\<close> sends: Python values built from
  \<^verbatim>\<open>None\<close>, \<^verbatim>\<open>bool\<close>, \<^verbatim>\<open>int\<close>, \<^verbatim>\<open>str\<close>, \<^verbatim>\<open>list\<close> and \<^verbatim>\<open>dict\<close>. A dict is an
  association list in insertion order with distinct keys. (No field of the declared
  schemas is a float, and the client never inspects a number.)
\<close>

datatype jvalue =
    JNull
  | JBool bool
  | JInt int
  | JStr string
  | JArr "jvalue list"
  | JObj "(string \<times> jvalue) list"

subsection \<open>Requests, responses, exceptions\<close>

datatype http_method = GET | POST

text \<open>
  The arguments of one call of \<^verbatim>\<open>http.get\<close> or \<^verbatim>\<open>http.post\<close>. A keyword argument
  that is not passed, or passed as \<^verbatim>\<open>None\<close>, is \<open>None\<close>. The timeout is a \<^verbatim>\<open>float\<close>
  that the client only passes on; its type is left open.
\<close>

record 't request =
  verb :: http_method
  url :: string
  params :: "(string \<times> int) list option"
  json_body :: "jvalue option"
  headers :: "(string \<times> string) list option"
  timeout :: 't

text \<open>An exception of the library that the client does not catch: its class and its text.\<close>

datatype py_exception = PyException string string

text \<open>\<^verbatim>\<open>requests.HTTPError\<close>, the exception the client catches, with its \<^verbatim>\<open>str(e)\<close>.\<close>

datatype http_error = HTTPError (str_e: string)

text \<open>
  What the client reads from a response: \<^verbatim>\<open>resp.status_code\<close>, \<^verbatim>\<open>resp.text\<close>
  (the field \<open>resp_text\<close>; \<open>None\<close> for Python's \<^verbatim>\<open>None\<close>), the outcome of
  \<^verbatim>\<open>resp.json()\<close> (the parsed value, or the exception it raises on a body that is
  not JSON), and the outcome of
  \<^verbatim>\<open>resp.raise_for_status()\<close> (\<open>None\<close> when it returns, \<open>Some e\<close> when it raises the
  \<^verbatim>\<open>HTTPError\<close> \<open>e\<close>; the library raises for a status from 400 to 599 and returns
  for any other).
\<close>

record response =
  status_code :: int
  resp_text :: "string option"
  json :: "py_exception + jvalue"
  raise_for_status :: "http_error option"

text \<open>
  A transport (\<^verbatim>\<open>requests.Session\<close>, or the \<^verbatim>\<open>requests\<close> module itself) answers a
  request with a response or raises (timeout, connection error).
\<close>

type_synonym 't transport = "'t request \<Rightarrow> py_exception + response"

text \<open>
  The exceptions a call of the client can end with: one of the module's three classes,
  with its message and its \<^verbatim>\<open>__cause__\<close> (set by \<^verbatim>\<open>raise ... from e\<close>), or an
  exception of the library that passes through the client uncaught.
\<close>

datatype error =
    PollsFetchError string "http_error option"
  | VotingError string "http_error option"
  | PollResultsFetchError string "http_error option"
  | Propagated py_exception

text \<open>
  The outcome of a call: the requests handed to the transport, in order, and the value
  returned or the exception raised.
\<close>

type_synonym 't outcome = "'t request list \<times> (error + jvalue)"

subsection \<open>The three operations\<close>

text \<open>
  The first argument of each operation is the module \<^verbatim>\<open>requests\<close>, the transport used
  when no session is given. The defaults of the keyword arguments are not modelled,
  apart from the base URL.
\<close>

text \<open>
  \<^verbatim>\<open>http = session or requests\<close>: the session when one is given (a
  \<^verbatim>\<open>requests.Session\<close> is never falsy), the module otherwise.
\<close>

abbreviation session_or_requests :: "'t transport option \<Rightarrow> 't transport \<Rightarrow> 't transport" where
  "session_or_requests session requests \<equiv> (case session of Some s \<Rightarrow> s | None \<Rightarrow> requests)"

definition default_base_url :: string where
  "default_base_url = ''http://localhost:8000''"

definition fetch_polls ::
  "'t transport \<Rightarrow> int \<Rightarrow> int \<Rightarrow> string \<Rightarrow> 't \<Rightarrow> 't transport option \<Rightarrow> 't outcome" where
  "fetch_polls requests skip limit base_url tmo session =
     (let http = session_or_requests session requests;
          req = \<lparr>verb = GET,
                 url = rstrip_slash base_url @ ''/polls'',
                 params = Some [(''skip'', skip), (''limit'', limit)],
                 json_body = None, headers = None, timeout = tmo\<rparr>
      in ([req],
          (case http req of
             Inl exn \<Rightarrow> Inl (Propagated exn)
           | Inr resp \<Rightarrow>
               if status_code resp = 200 then
                 (case json resp of
                    Inl exn \<Rightarrow> Inl (Propagated exn)
                  | Inr data \<Rightarrow> Inr data)
               else
                 (case raise_for_status resp of
                    Some e \<Rightarrow>
                      (let txt = strip (case resp_text resp of None \<Rightarrow> [] | Some s \<Rightarrow> s)
                       in Inl (PollsFetchError
                                 (''GET /polls failed ('' @ str_int (status_code resp) @ ''): ''
                                    @ (if txt \<noteq> [] then txt else str_e e))
                                 (Some e)))
                  | None \<Rightarrow>
                      Inl (PollsFetchError
                             (''Unexpected status code '' @ str_int (status_code resp))
                             None)))))"

definition cast_vote ::
  "'t transport \<Rightarrow> int \<Rightarrow> int \<Rightarrow> string \<Rightarrow> 't \<Rightarrow> 't transport option \<Rightarrow> string option
     \<Rightarrow> 't outcome" where
  "cast_vote requests poll_id option_id base_url tmo session bearer_token =
     (let http = session_or_requests session requests;
          hdrs = (case bearer_token of
                    None \<Rightarrow> []
                  | Some tok \<Rightarrow>
                      if tok \<noteq> [] then [(''Authorization'', ''Bearer '' @ tok)] else []);
          req = \<lparr>verb = POST,
                 url = rstrip_slash base_url @ ''/polls/'' @ str_int poll_id @ ''/vote'',
                 params = None,
                 json_body = Some (JObj [(''option_id'', JInt option_id)]),
                 headers = (if hdrs \<noteq> [] then Some hdrs else None),
                 timeout = tmo\<rparr>
      in ([req],
          (case http req of
             Inl exn \<Rightarrow> Inl (Propagated exn)
           | Inr resp \<Rightarrow>
               if status_code resp = 200 then
                 (case json resp of
                    Inl exn \<Rightarrow> Inl (Propagated exn)
                  | Inr data \<Rightarrow> Inr data)
               else
                 (case raise_for_status resp of
                    Some e \<Rightarrow>
                      (let txt = strip (case resp_text resp of None \<Rightarrow> [] | Some s \<Rightarrow> s)
                       in Inl (VotingError
                                 (''POST /polls/'' @ str_int poll_id @ ''/vote failed (''
                                    @ str_int (status_code resp) @ ''): ''
                                    @ (if txt \<noteq> [] then txt else str_e e))
                                 (Some e)))
                  | None \<Rightarrow>
                      Inl (VotingError
                             (''Unexpected status code '' @ str_int (status_code resp))
                             None)))))"

definition get_poll_results ::
  "'t transport \<Rightarrow> int \<Rightarrow> string \<Rightarrow> 't \<Rightarrow> 't transport option \<Rightarrow> 't outcome" where
  "get_poll_results requests poll_id base_url tmo session =
     (let http = session_or_requests session requests;
          req = \<lparr>verb = GET,
                 url = rstrip_slash base_url @ ''/polls/'' @ str_int poll_id @ ''/results'',
                 params = None, json_body = None, headers = None, timeout = tmo\<rparr>
      in ([req],
          (case http req of
             Inl exn \<Rightarrow> Inl (Propagated exn)
           | Inr resp \<Rightarrow>
               if status_code resp = 200 then
                 (case json resp of
                    Inl exn \<Rightarrow> Inl (Propagated exn)
                  | Inr data \<Rightarrow> Inr data)
               else
                 (case raise_for_status resp of
                    Some e \<Rightarrow>
                      (let txt = strip (case resp_text resp of None \<Rightarrow> [] | Some s \<Rightarrow> s)
                       in Inl (PollResultsFetchError
                                 (''GET /polls/'' @ str_int poll_id @ ''/results failed (''
                                    @ str_int (status_code resp) @ ''): ''
                                    @ (if txt \<noteq> [] then txt else str_e e))
                                 (Some e)))
                  | None \<Rightarrow>
                      Inl (PollResultsFetchError
                             (''Unexpected status code '' @ str_int (status_code resp))
                             None)))))"

subsection \<open>The declared response schemas\<close>

text \<open>
  The module declares the shape of each response as a \<^verbatim>\<open>TypedDict\<close>: \<^verbatim>\<open>OptionOut\<close>,
  \<^verbatim>\<open>PollOut\<close>, \<^verbatim>\<open>VoteOut\<close>, \<^verbatim>\<open>PollResultItem\<close> and \<^verbatim>\<open>PollResults\<close>. At run time
  a value of such a type is the plain dict that \<^verbatim>\<open>resp.json()\<close> returned; the
  operations neither build nor check it. Each declaration is a record here, and
  \<open>as_PollOut\<close>, \<open>as_VoteOut\<close>, \<open>as_PollResults\<close> read a record from a JSON value
  that has the declared fields with the declared types (\<open>None\<close> when it has not).
  Field names carry the name of their class, since several classes share them.
\<close>

record OptionOut =
  OptionOut_id :: int
  OptionOut_text :: string
  OptionOut_poll_id :: int

record PollOut =
  PollOut_id :: int
  PollOut_question :: string
  PollOut_created_at :: string
  PollOut_owner_id :: int
  PollOut_options :: "OptionOut list"

record VoteOut =
  VoteOut_id :: int
  VoteOut_user_id :: int
  VoteOut_option_id :: int
  VoteOut_created_at :: string

record PollResultItem =
  PollResultItem_option_id :: int
  PollResultItem_text :: string
  PollResultItem_vote_count :: int

record PollResults =
  PollResults_poll_id :: int
  PollResults_question :: string
  PollResults_results :: "PollResultItem list"

text \<open>\<^verbatim>\<open>d[k]\<close> on a parsed JSON value: \<open>None\<close> when \<open>d\<close> is no dict or has no key \<open>k\<close>.\<close>

fun get_item :: "jvalue \<Rightarrow> string \<Rightarrow> jvalue option" where
  "get_item (JObj kvs) k = map_of kvs k"
| "get_item _ k = None"

definition get_int :: "jvalue \<Rightarrow> string \<Rightarrow> int option" where
  "get_int d k = (case get_item d k of Some (JInt i) \<Rightarrow> Some i | _ \<Rightarrow> None)"

definition get_str :: "jvalue \<Rightarrow> string \<Rightarrow> string option" where
  "get_str d k = (case get_item d k of Some (JStr s) \<Rightarrow> Some s | _ \<Rightarrow> None)"

definition get_list :: "jvalue \<Rightarrow> string \<Rightarrow> jvalue list option" where
  "get_list d k = (case get_item d k of Some (JArr xs) \<Rightarrow> Some xs | _ \<Rightarrow> None)"

definition as_OptionOut :: "jvalue \<Rightarrow> OptionOut option" where
  "as_OptionOut d =
     (case (get_int d ''id'', get_str d ''text'', get_int d ''poll_id'') of
        (Some i, Some t, Some p) \<Rightarrow>
          Some \<lparr>OptionOut_id = i, OptionOut_text = t, OptionOut_poll_id = p\<rparr>
      | _ \<Rightarrow> None)"

definition as_PollOut :: "jvalue \<Rightarrow> PollOut option" where
  "as_PollOut d =
     (case (get_int d ''id'', get_str d ''question'', get_str d ''created_at'',
            get_int d ''owner_id'', get_list d ''options'') of
        (Some i, Some q, Some c, Some ow, Some os) \<Rightarrow>
          (case those (map as_OptionOut os) of
             Some opts \<Rightarrow>
               Some \<lparr>PollOut_id = i, PollOut_question = q, PollOut_created_at = c,
                     PollOut_owner_id = ow, PollOut_options = opts\<rparr>
           | None \<Rightarrow> None)
      | _ \<Rightarrow> None)"

text \<open>A list of polls: a JSON array whose items all read as \<^verbatim>\<open>PollOut\<close>.\<close>

definition as_PollOut_list :: "jvalue \<Rightarrow> PollOut list option" where
  "as_PollOut_list v = (case v of JArr ds \<Rightarrow> those (map as_PollOut ds) | _ \<Rightarrow> None)"

definition as_VoteOut :: "jvalue \<Rightarrow> VoteOut option" where
  "as_VoteOut d =
     (case (get_int d ''id'', get_int d ''user_id'', get_int d ''option_id'',
            get_str d ''created_at'') of
        (Some i, Some u, Some ob, Some c) \<Rightarrow>
          Some \<lparr>VoteOut_id = i, VoteOut_user_id = u, VoteOut_option_id = ob,
                VoteOut_created_at = c\<rparr>
      | _ \<Rightarrow> None)"

definition as_PollResultItem :: "jvalue \<Rightarrow> PollResultItem option" where
  "as_PollResultItem d =
     (case (get_int d ''option_id'', get_str d ''text'', get_int d ''vote_count'') of
        (Some ob, Some t, Some n) \<Rightarrow>
          Some \<lparr>PollResultItem_option_id = ob, PollResultItem_text = t,
                PollResultItem_vote_count = n\<rparr>
      | _ \<Rightarrow> None)"

definition as_PollResults :: "jvalue \<Rightarrow> PollResults option" where
  "as_PollResults d =
     (case (get_int d ''poll_id'', get_str d ''question'', get_list d ''results'') of
        (Some p, Some q, Some rs) \<Rightarrow>
          (case those (map as_PollResultItem rs) of
             Some items \<Rightarrow>
               Some \<lparr>PollResults_poll_id = p, PollResults_question = q,
                     PollResults_results = items\<rparr>
           | None \<Rightarrow> None)
      | _ \<Rightarrow> None)"

subsection \<open>Stub transports and example responses\<close>

text \<open>A transport that answers every request with the same response, and one that always raises.\<close>

definition always :: "response \<Rightarrow> 't transport" where
  "always resp = (\<lambda>req. Inr resp)"

definition failing :: "py_exception \<Rightarrow> 't transport" where
  "failing exn = (\<lambda>req. Inl exn)"

text \<open>
  The 200 responses: the list of one poll of the specification's example, a vote, the
  results of a poll with two options, and an object of none of the declared shapes.
  The client does not read \<^verbatim>\<open>resp.text\<close> of a 200 response.
\<close>

definition polls_200 :: response where
  "polls_200 =
     \<lparr>status_code = 200, resp_text = Some [],
      json = Inr (JArr [JObj [(''id'', JInt 1), (''question'', JStr ''Q''),
                              (''created_at'', JStr ''2024-01-01T00:00:00Z''),
                              (''owner_id'', JInt 1), (''options'', JArr [])]]),
      raise_for_status = None\<rparr>"

definition vote_200 :: response where
  "vote_200 =
     \<lparr>status_code = 200, resp_text = Some [],
      json = Inr (JObj [(''id'', JInt 7), (''user_id'', JInt 3), (''option_id'', JInt 5),
                        (''created_at'', JStr ''2024-01-01T00:00:00Z'')]),
      raise_for_status = None\<rparr>"

definition results_200 :: response where
  "results_200 =
     \<lparr>status_code = 200, resp_text = Some [],
      json = Inr (JObj [(''poll_id'', JInt 1), (''question'', JStr ''Q''),
                        (''results'',
                         JArr [JObj [(''option_id'', JInt 5), (''text'', JStr ''A''),
                                     (''vote_count'', JInt 2)],
                               JObj [(''option_id'', JInt 6), (''text'', JStr ''B''),
                                     (''vote_count'', JInt 0)]])]),
      raise_for_status = None\<rparr>"

definition misshapen_200 :: response where
  "misshapen_200 =
     \<lparr>status_code = 200, resp_text = Some [],
      json = Inr (JObj [(''detail'', JStr ''ok'')]),
      raise_for_status = None\<rparr>"

text \<open>
  The other responses: a 404 with a text body, a 500 whose body is two spaces, and a
  201 with a text body. As in the library, \<^verbatim>\<open>raise_for_status\<close> raises for 404 and 500
  and returns for 201; \<^verbatim>\<open>resp.json()\<close> would raise on these bodies.
\<close>

definition not_found_404 :: response where
  "not_found_404 =
     \<lparr>status_code = 404, resp_text = Some ''  Poll not found '',
      json = Inl (PyException ''JSONDecodeError'' ''Expecting value''),
      raise_for_status = Some (HTTPError ''404 Client Error: Not Found'')\<rparr>"

definition blank_500 :: response where
  "blank_500 =
     \<lparr>status_code = 500, resp_text = Some ''  '',
      json = Inl (PyException ''JSONDecodeError'' ''Expecting value''),
      raise_for_status = Some (HTTPError ''500 Server Error: Internal Server Error'')\<rparr>"

definition created_201 :: response where
  "created_201 =
     \<lparr>status_code = 201, resp_text = Some ''created'',
      json = Inl (PyException ''JSONDecodeError'' ''Expecting value''),
      raise_for_status = None\<rparr>"

text \<open>
  The text that ends the message of a failed call when \<^verbatim>\<open>raise_for_status\<close> raised
  \<open>e\<close>: \<^verbatim>\<open>text or str(e)\<close>, where \<^verbatim>\<open>text = (resp.text or "").strip()\<close>.
\<close>

definition text_or_str_e :: "response \<Rightarrow> http_error \<Rightarrow> string" where
  "text_or_str_e resp e =
     (let txt = strip (case resp_text resp of None \<Rightarrow> [] | Some s \<Rightarrow> s)
      in if txt \<noteq> [] then txt else str_e e)"

section \<open>Properties\<close>

subsection \<open>Trailing slashes of the base URL\<close>

lemma dropWhile_replicate_same:
  "dropWhile (\<lambda>c. c = x) (replicate n x @ ys) = dropWhile (\<lambda>c. c = x) ys"
  by (induction n) simp_all

lemma rstrip_slash_trailing:
  "rstrip_slash (b @ replicate n (CHR ''/'')) = rstrip_slash b"
  by (simp add: rstrip_slash_def dropWhile_replicate_same)

text \<open>
  Claim C9. Each of the three operations strips the trailing \<^verbatim>\<open>/\<close> characters of the
  base URL before it appends the endpoint path: a base URL and the same base URL
  followed by any number of \<^verbatim>\<open>/\<close> give the same request URL, and the whole outcome of
  the call (requests sent, value returned or exception raised) is the same.
\<close>

theorem trailing_slashes_ignored:
  "fetch_polls rq skip limit (b @ replicate n (CHR ''/'')) tmo session
     = fetch_polls rq skip limit b tmo session
   \<and> cast_vote rq poll_id option_id (b @ replicate n (CHR ''/'')) tmo session tok
     = cast_vote rq poll_id option_id b tmo session tok
   \<and> get_poll_results rq poll_id (b @ replicate n (CHR ''/'')) tmo session
     = get_poll_results rq poll_id b tmo session
   \<and> map url (fst (fetch_polls rq skip limit (b @ replicate n (CHR ''/'')) tmo session))
     = [rstrip_slash b @ ''/polls'']
   \<and> map url (fst (cast_vote rq poll_id option_id (b @ replicate n (CHR ''/'')) tmo session tok))
     = [rstrip_slash b @ ''/polls/'' @ str_int poll_id @ ''/vote'']
   \<and> map url (fst (get_poll_results rq poll_id (b @ replicate n (CHR ''/'')) tmo session))
     = [rstrip_slash b @ ''/polls/'' @ str_int poll_id @ ''/results'']"
  by (simp add: fetch_polls_def cast_vote_def get_poll_results_def rstrip_slash_trailing Let_def)

subsection \<open>The empty bearer token\<close>

text \<open>
  Claim C10. With the empty string as bearer token, \<^verbatim>\<open>cast_vote\<close> sends no
  Authorization header (the request has no headers at all), and the call behaves as
  the call without a token does.
\<close>

theorem empty_token_is_no_token:
  "cast_vote rq poll_id option_id base_url tmo session (Some [])
     = cast_vote rq poll_id option_id base_url tmo session None
   \<and> map headers (fst (cast_vote rq poll_id option_id base_url tmo session (Some []))) = [None]"
  by (simp add: cast_vote_def Let_def)

subsection \<open>Successful calls\<close>

lemma rstrip_slash_no_trailing:
  "b = [] \<or> last b \<noteq> CHR ''/'' \<Longrightarrow> rstrip_slash b = b"
  by (cases b rule: rev_cases) (auto simp: rstrip_slash_def)

lemma those_eq_Some:
  "those xs = Some ys \<Longrightarrow> xs = map Some ys"
  by (induction xs arbitrary: ys) (auto split: option.splits)

text \<open>
  Claim C1. For every \<^verbatim>\<open>skip\<close> and \<^verbatim>\<open>limit\<close>, \<^verbatim>\<open>fetch_polls\<close> hands the transport one
  request: a GET of the base URL (its trailing \<^verbatim>\<open>/\<close> characters removed, so the base
  URL itself when it has none) followed by \<^verbatim>\<open>/polls\<close>, with the query parameters
  \<^verbatim>\<open>skip\<close> and \<^verbatim>\<open>limit\<close>. Whenever the response has status 200 and its JSON body is an
  array of polls, the call returns a value that reads as the same list of polls, field
  by field.
\<close>

theorem fetch_polls_ok:
  "\<exists>req. fst (fetch_polls rq skip limit base_url tmo session) = [req]
      \<and> verb req = GET
      \<and> url req = rstrip_slash base_url @ ''/polls''
      \<and> (base_url = [] \<or> last base_url \<noteq> CHR ''/'' \<longrightarrow> url req = base_url @ ''/polls'')
      \<and> params req = Some [(''skip'', skip), (''limit'', limit)]
      \<and> (\<forall>resp body polls.
            session_or_requests session rq req = Inr resp
            \<and> status_code resp = 200 \<and> json resp = Inr body
            \<and> as_PollOut_list body = Some polls
            \<longrightarrow> (\<exists>ret. snd (fetch_polls rq skip limit base_url tmo session) = Inr ret
                       \<and> as_PollOut_list ret = Some polls))"
  by (simp add: fetch_polls_def Let_def rstrip_slash_no_trailing)

text \<open>
  The example of the specification: \<^verbatim>\<open>fetch_polls(skip=0, limit=2)\<close> against a stub
  that answers with the one poll of id 1 returns that one poll.
\<close>

theorem fetch_polls_ok_witness:
  "fst (fetch_polls (always polls_200) 0 2 default_base_url (10::int) None)
     = [\<lparr>verb = GET, url = ''http://localhost:8000/polls'',
         params = Some [(''skip'', 0), (''limit'', 2)],
         json_body = None, headers = None, timeout = 10\<rparr>]
   \<and> (\<exists>ret. snd (fetch_polls (always polls_200) 0 2 default_base_url (10::int) None) = Inr ret
          \<and> as_PollOut_list ret
               = Some [\<lparr>PollOut_id = 1, PollOut_question = ''Q'',
                        PollOut_created_at = ''2024-01-01T00:00:00Z'',
                        PollOut_owner_id = 1, PollOut_options = []\<rparr>])"
proof -
  let ?call = "fetch_polls (always polls_200) 0 2 default_base_url (10::int) None"
  let ?body = "JArr [JObj [(''id'', JInt 1), (''question'', JStr ''Q''),
                           (''created_at'', JStr ''2024-01-01T00:00:00Z''),
                           (''owner_id'', JInt 1), (''options'', JArr [])]]"
  from fetch_polls_ok [of "always polls_200" 0 2 default_base_url 10 None]
  obtain req where sent: "fst ?call = [req]"
    and "verb req = GET"
    and u: "last default_base_url \<noteq> CHR ''/'' \<longrightarrow> url req = default_base_url @ ''/polls''"
    and p: "params req = Some [(''skip'', 0), (''limit'', 2)]"
    and ok: "\<And>resp body polls.
               session_or_requests None (always polls_200) req = Inr resp \<Longrightarrow>
               status_code resp = 200 \<Longrightarrow> json resp = Inr body \<Longrightarrow>
               as_PollOut_list body = Some polls \<Longrightarrow>
               \<exists>ret. snd ?call = Inr ret \<and> as_PollOut_list ret = Some polls"
    by blast
  have polls: "as_PollOut_list ?body
                 = Some [\<lparr>PollOut_id = 1, PollOut_question = ''Q'',
                          PollOut_created_at = ''2024-01-01T00:00:00Z'',
                          PollOut_owner_id = 1, PollOut_options = []\<rparr>]"
    by code_simp
  have "session_or_requests None (always polls_200) req = Inr polls_200"
    by (simp add: always_def)
  moreover have "status_code polls_200 = 200" and "json polls_200 = Inr ?body"
    by (simp_all add: polls_200_def)
  ultimately have "\<exists>ret. snd ?call = Inr ret \<and> as_PollOut_list ret
               = Some [\<lparr>PollOut_id = 1, PollOut_question = ''Q'',
                        PollOut_created_at = ''2024-01-01T00:00:00Z'',
                        PollOut_owner_id = 1, PollOut_options = []\<rparr>]"
    using ok polls by blast
  moreover have "fst ?call = [\<lparr>verb = GET, url = ''http://localhost:8000/polls'',
         params = Some [(''skip'', 0), (''limit'', 2)],
         json_body = None, headers = None, timeout = 10\<rparr>]"
    by code_simp
  ultimately show ?thesis by blast
qed

text \<open>
  Claim C4. Whenever the response to \<^verbatim>\<open>cast_vote\<close> has status 200 and its JSON body is
  an object with the fields \<^verbatim>\<open>id\<close>, \<^verbatim>\<open>user_id\<close>, \<^verbatim>\<open>option_id\<close> and \<^verbatim>\<open>created_at\<close>, the
  value returned reads as the vote with exactly those field values.
\<close>

theorem cast_vote_round_trip:
  assumes "fst (cast_vote rq poll_id option_id base_url tmo session tok) = [req]"
    and "session_or_requests session rq req = Inr resp"
    and "status_code resp = 200"
    and "json resp = Inr body"
    and "as_VoteOut body = Some v"
  shows "\<exists>ret. snd (cast_vote rq poll_id option_id base_url tmo session tok) = Inr ret
           \<and> as_VoteOut ret = Some v
           \<and> get_int ret ''id'' = Some (VoteOut_id v)
           \<and> get_int ret ''user_id'' = Some (VoteOut_user_id v)
           \<and> get_int ret ''option_id'' = Some (VoteOut_option_id v)
           \<and> get_str ret ''created_at'' = Some (VoteOut_created_at v)"
proof -
  have "snd (cast_vote rq poll_id option_id base_url tmo session tok) = Inr body"
    using assms(1-4) by (auto simp: cast_vote_def Let_def)
  moreover have "get_int body ''id'' = Some (VoteOut_id v)"
    and "get_int body ''user_id'' = Some (VoteOut_user_id v)"
    and "get_int body ''option_id'' = Some (VoteOut_option_id v)"
    and "get_str body ''created_at'' = Some (VoteOut_created_at v)"
    using assms(5) by (auto simp: as_VoteOut_def split: option.splits)
  ultimately show ?thesis using assms(5) by simp
qed

text \<open>A vote response, read back from the value \<^verbatim>\<open>cast_vote\<close> returns.\<close>

theorem cast_vote_round_trip_witness:
  "\<exists>ret. snd (cast_vote (always vote_200) 1 5 default_base_url (10::int) None None) = Inr ret
     \<and> as_VoteOut ret
          = Some \<lparr>VoteOut_id = 7, VoteOut_user_id = 3, VoteOut_option_id = 5,
                  VoteOut_created_at = ''2024-01-01T00:00:00Z''\<rparr>"
proof -
  let ?req = "\<lparr>verb = POST, url = ''http://localhost:8000/polls/1/vote'', params = None,
               json_body = Some (JObj [(''option_id'', JInt 5)]), headers = None,
               timeout = (10::int)\<rparr>"
  let ?body = "JObj [(''id'', JInt 7), (''user_id'', JInt 3), (''option_id'', JInt 5),
                     (''created_at'', JStr ''2024-01-01T00:00:00Z'')]"
  have 1: "fst (cast_vote (always vote_200) 1 5 default_base_url (10::int) None None) = [?req]"
    by code_simp
  have 2: "session_or_requests None (always vote_200) ?req = Inr vote_200"
    by (simp add: always_def)
  have 3: "status_code vote_200 = 200" and 4: "json vote_200 = Inr ?body"
    by (simp_all add: vote_200_def)
  have 5: "as_VoteOut ?body
             = Some \<lparr>VoteOut_id = 7, VoteOut_user_id = 3, VoteOut_option_id = 5,
                     VoteOut_created_at = ''2024-01-01T00:00:00Z''\<rparr>"
    by code_simp
  from cast_vote_round_trip [OF 1 2 3 4 5] show ?thesis by blast
qed

text \<open>
  Claim C5. Whenever the response to \<^verbatim>\<open>get_poll_results\<close> has status 200 and its JSON
  body is a \<^verbatim>\<open>PollResults\<close> object, the value returned has the same \<^verbatim>\<open>poll_id\<close> and
  \<^verbatim>\<open>question\<close>, and its \<^verbatim>\<open>results\<close> list reads, item by item and in the same order, as
  the result items of the response.
\<close>

theorem get_poll_results_round_trip:
  assumes "fst (get_poll_results rq poll_id base_url tmo session) = [req]"
    and "session_or_requests session rq req = Inr resp"
    and "status_code resp = 200"
    and "json resp = Inr body"
    and "as_PollResults body = Some r"
  shows "\<exists>ret items. snd (get_poll_results rq poll_id base_url tmo session) = Inr ret
           \<and> as_PollResults ret = Some r
           \<and> get_int ret ''poll_id'' = Some (PollResults_poll_id r)
           \<and> get_str ret ''question'' = Some (PollResults_question r)
           \<and> get_list ret ''results'' = Some items
           \<and> map as_PollResultItem items = map Some (PollResults_results r)"
proof -
  have "snd (get_poll_results rq poll_id base_url tmo session) = Inr body"
    using assms(1-4) by (auto simp: get_poll_results_def Let_def)
  moreover have "get_int body ''poll_id'' = Some (PollResults_poll_id r)"
    and "get_str body ''question'' = Some (PollResults_question r)"
    using assms(5) by (auto simp: as_PollResults_def split: option.splits)
  moreover have "\<exists>items. get_list body ''results'' = Some items
                   \<and> map as_PollResultItem items = map Some (PollResults_results r)"
    using assms(5) by (auto simp: as_PollResults_def split: option.splits dest: those_eq_Some)
  ultimately show ?thesis using assms(5) by auto
qed

text \<open>A results response with two items, read back in the order of the response.\<close>

theorem get_poll_results_round_trip_witness:
  "\<exists>ret. snd (get_poll_results (always results_200) 1 default_base_url (10::int) None) = Inr ret
     \<and> as_PollResults ret
          = Some \<lparr>PollResults_poll_id = 1, PollResults_question = ''Q'',
                  PollResults_results =
                    [\<lparr>PollResultItem_option_id = 5, PollResultItem_text = ''A'',
                      PollResultItem_vote_count = 2\<rparr>,
                     \<lparr>PollResultItem_option_id = 6, PollResultItem_text = ''B'',
                      PollResultItem_vote_count = 0\<rparr>]\<rparr>"
proof -
  let ?req = "\<lparr>verb = GET, url = ''http://localhost:8000/polls/1/results'', params = None,
               json_body = None, headers = None, timeout = (10::int)\<rparr>"
  let ?body = "JObj [(''poll_id'', JInt 1), (''question'', JStr ''Q''),
                        (''results'',
                         JArr [JObj [(''option_id'', JInt 5), (''text'', JStr ''A''),
                                     (''vote_count'', JInt 2)],
                               JObj [(''option_id'', JInt 6), (''text'', JStr ''B''),
                                     (''vote_count'', JInt 0)]])]"
  have 1: "fst (get_poll_results (always results_200) 1 default_base_url (10::int) None) = [?req]"
    by code_simp
  have 2: "session_or_requests None (always results_200) ?req = Inr results_200"
    by (simp add: always_def)
  have 3: "status_code results_200 = 200" and 4: "json results_200 = Inr ?body"
    by (simp_all add: results_200_def)
  have 5: "as_PollResults ?body
          = Some \<lparr>PollResults_poll_id = 1, PollResults_question = ''Q'',
                  PollResults_results =
                    [\<lparr>PollResultItem_option_id = 5, PollResultItem_text = ''A'',
                      PollResultItem_vote_count = 2\<rparr>,
                     \<lparr>PollResultItem_option_id = 6, PollResultItem_text = ''B'',
                      PollResultItem_vote_count = 0\<rparr>]\<rparr>"
    by code_simp
  from get_poll_results_round_trip [OF 1 2 3 4 5] show ?thesis by blast
qed

text \<open>
  Claim C8. On a response of status 200 each of the three operations returns the value
  of \<^verbatim>\<open>resp.json()\<close> as it is. Nothing checks it against the declared schema: an object
  where \<^verbatim>\<open>fetch_polls\<close> declares a list, or an object without the declared fields, is
  returned all the same and no exception is raised.
\<close>

theorem returns_json_verbatim:
  "(\<forall>req resp body.
      fst (fetch_polls rq skip limit base_url tmo session) = [req]
      \<and> session_or_requests session rq req = Inr resp
      \<and> status_code resp = 200 \<and> json resp = Inr body
      \<longrightarrow> snd (fetch_polls rq skip limit base_url tmo session) = Inr body)
   \<and> (\<forall>req resp body.
      fst (cast_vote rq poll_id option_id base_url tmo session tok) = [req]
      \<and> session_or_requests session rq req = Inr resp
      \<and> status_code resp = 200 \<and> json resp = Inr body
      \<longrightarrow> snd (cast_vote rq poll_id option_id base_url tmo session tok) = Inr body)
   \<and> (\<forall>req resp body.
      fst (get_poll_results rq poll_id base_url tmo session) = [req]
      \<and> session_or_requests session rq req = Inr resp
      \<and> status_code resp = 200 \<and> json resp = Inr body
      \<longrightarrow> snd (get_poll_results rq poll_id base_url tmo session) = Inr body)"
  by (auto simp: fetch_polls_def cast_vote_def get_poll_results_def Let_def)

text \<open>
  An object that is neither a list of polls, nor a vote, nor poll results, returned
  unchanged by all three operations.
\<close>

theorem returns_json_verbatim_witness:
  "snd (fetch_polls (always misshapen_200) 0 10 default_base_url (10::int) None)
     = Inr (JObj [(''detail'', JStr ''ok'')])
   \<and> as_PollOut_list (JObj [(''detail'', JStr ''ok'')]) = None
   \<and> snd (cast_vote (always misshapen_200) 1 5 default_base_url (10::int) None None)
     = Inr (JObj [(''detail'', JStr ''ok'')])
   \<and> as_VoteOut (JObj [(''detail'', JStr ''ok'')]) = None
   \<and> snd (get_poll_results (always misshapen_200) 1 default_base_url (10::int) None)
     = Inr (JObj [(''detail'', JStr ''ok'')])
   \<and> as_PollResults (JObj [(''detail'', JStr ''ok'')]) = None"
proof -
  let ?body = "JObj [(''detail'', JStr ''ok'')]"
  let ?rq = "always misshapen_200 :: int transport"
  note v = returns_json_verbatim [of ?rq 0 10 default_base_url 10 None 1 5 None]
  have ans: "\<And>req. session_or_requests None ?rq req = Inr misshapen_200"
    by (simp add: always_def)
  have st: "status_code misshapen_200 = 200" and js: "json misshapen_200 = Inr ?body"
    by (simp_all add: misshapen_200_def)
  have "\<exists>req. fst (fetch_polls ?rq 0 10 default_base_url 10 None) = [req]"
    by (simp add: fetch_polls_def Let_def)
  then have a: "snd (fetch_polls ?rq 0 10 default_base_url 10 None) = Inr ?body"
    using v ans st js by blast
  have "\<exists>req. fst (cast_vote ?rq 1 5 default_base_url 10 None None) = [req]"
    by (simp add: cast_vote_def Let_def)
  then have b: "snd (cast_vote ?rq 1 5 default_base_url 10 None None) = Inr ?body"
    using v ans st js by blast
  have "\<exists>req. fst (get_poll_results ?rq 1 default_base_url 10 None) = [req]"
    by (simp add: get_poll_results_def Let_def)
  then have c: "snd (get_poll_results ?rq 1 default_base_url 10 None) = Inr ?body"
    using v ans st js by blast
  have "as_PollOut_list ?body = None" and "as_VoteOut ?body = None"
    and "as_PollResults ?body = None"
    by code_simp+
  with a b c show ?thesis by simp
qed

subsection \<open>The request of a vote\<close>

text \<open>
  Claim C3, as the code has it. For every \<^verbatim>\<open>poll_id\<close>, \<^verbatim>\<open>option_id\<close> and optional bearer
  token, \<^verbatim>\<open>cast_vote\<close> hands the transport exactly one request: a POST to the base URL
  (trailing \<^verbatim>\<open>/\<close> removed) followed by \<^verbatim>\<open>/polls/{poll_id}/vote\<close>, whose JSON body is
  \<^verbatim>\<open>{"option_id": option_id}\<close>. When a token that is not the empty string is given, the
  headers are exactly \<^verbatim>\<open>Authorization: Bearer <token>\<close>; without a token, and with the
  empty string as token, the request has no headers.
\<close>

theorem cast_vote_request:
  "\<exists>req. fst (cast_vote rq poll_id option_id base_url tmo session tok) = [req]
      \<and> verb req = POST
      \<and> url req = rstrip_slash base_url @ ''/polls/'' @ str_int poll_id @ ''/vote''
      \<and> json_body req = Some (JObj [(''option_id'', JInt option_id)])
      \<and> headers req =
          (case tok of
             None \<Rightarrow> None
           | Some t \<Rightarrow> if t \<noteq> [] then Some [(''Authorization'', ''Bearer '' @ t)] else None)"
  by (simp add: cast_vote_def Let_def split: option.splits)

text \<open>
  The claim as the specification words it fails for a token that is supplied and
  empty: \<^verbatim>\<open>cast_vote(1, 5, bearer_token="")\<close> sends no Authorization header, where the
  token \<^verbatim>\<open>"abc"\<close> gives \<^verbatim>\<open>Bearer abc\<close>.
\<close>

theorem supplied_empty_token_no_header:
  "map headers (fst (cast_vote (always vote_200) 1 5 default_base_url (10::int) None (Some ''''))) = [None]
   \<and> map headers (fst (cast_vote (always vote_200) 1 5 default_base_url (10::int) None (Some ''abc'')))
       = [Some [(''Authorization'', ''Bearer abc'')]]"
  by code_simp

subsection \<open>Failures of the transport\<close>

text \<open>
  Claim C7. When the transport raises instead of answering (a timeout, a connection
  error), each of the three operations ends with that same exception, unchanged: it
  is not wrapped into \<^verbatim>\<open>PollsFetchError\<close>, \<^verbatim>\<open>VotingError\<close> or \<^verbatim>\<open>PollResultsFetchError\<close>.
\<close>

theorem transport_failure_propagates:
  "(\<forall>req exn.
      fst (fetch_polls rq skip limit base_url tmo session) = [req]
      \<and> session_or_requests session rq req = Inl exn
      \<longrightarrow> snd (fetch_polls rq skip limit base_url tmo session) = Inl (Propagated exn))
   \<and> (\<forall>req exn.
      fst (cast_vote rq poll_id option_id base_url tmo session tok) = [req]
      \<and> session_or_requests session rq req = Inl exn
      \<longrightarrow> snd (cast_vote rq poll_id option_id base_url tmo session tok) = Inl (Propagated exn))
   \<and> (\<forall>req exn.
      fst (get_poll_results rq poll_id base_url tmo session) = [req]
      \<and> session_or_requests session rq req = Inl exn
      \<longrightarrow> snd (get_poll_results rq poll_id base_url tmo session) = Inl (Propagated exn))"
  by (auto simp: fetch_polls_def cast_vote_def get_poll_results_def Let_def)

text \<open>A connect timeout passes through each of the three operations.\<close>

theorem transport_failure_propagates_witness:
  "snd (fetch_polls (failing (PyException ''ConnectTimeout'' ''timed out'')) 0 10
          default_base_url (10::int) None)
     = Inl (Propagated (PyException ''ConnectTimeout'' ''timed out''))
   \<and> snd (cast_vote (failing (PyException ''ConnectTimeout'' ''timed out'')) 1 5
          default_base_url (10::int) None (Some ''abc''))
     = Inl (Propagated (PyException ''ConnectTimeout'' ''timed out''))
   \<and> snd (get_poll_results (failing (PyException ''ConnectTimeout'' ''timed out'')) 1
          default_base_url (10::int) None)
     = Inl (Propagated (PyException ''ConnectTimeout'' ''timed out''))"
proof -
  let ?exn = "PyException ''ConnectTimeout'' ''timed out''"
  let ?rq = "failing ?exn :: int transport"
  note v = transport_failure_propagates [of ?rq 0 10 default_base_url 10 None 1 5 "Some ''abc''"]
  have ans: "\<And>req. session_or_requests None ?rq req = Inl ?exn"
    by (simp add: failing_def)
  have "\<exists>req. fst (fetch_polls ?rq 0 10 default_base_url 10 None) = [req]"
    by (simp add: fetch_polls_def Let_def)
  then have a: "snd (fetch_polls ?rq 0 10 default_base_url 10 None) = Inl (Propagated ?exn)"
    using v ans by blast
  have "\<exists>req. fst (cast_vote ?rq 1 5 default_base_url 10 None (Some ''abc'')) = [req]"
    by (simp add: cast_vote_def Let_def)
  then have b: "snd (cast_vote ?rq 1 5 default_base_url 10 None (Some ''abc'')) = Inl (Propagated ?exn)"
    using v ans by blast
  have "\<exists>req. fst (get_poll_results ?rq 1 default_base_url 10 None) = [req]"
    by (simp add: get_poll_results_def Let_def)
  then have c: "snd (get_poll_results ?rq 1 default_base_url 10 None) = Inl (Propagated ?exn)"
    using v ans by blast
  from a b c show ?thesis by simp
qed

subsection \<open>Responses of a status other than 200\<close>

text \<open>
  What each operation ends with on such a response: when \<^verbatim>\<open>raise_for_status\<close> raises,
  the message of the endpoint with the status code and \<^verbatim>\<open>text or str(e)\<close>, chained to
  the \<^verbatim>\<open>HTTPError\<close>; when it returns, the message \<^verbatim>\<open>Unexpected status code\<close>.
\<close>

lemma fetch_polls_not_200:
  assumes "fst (fetch_polls rq skip limit base_url tmo session) = [req]"
    and "session_or_requests session rq req = Inr resp"
    and "status_code resp \<noteq> 200"
  shows "snd (fetch_polls rq skip limit base_url tmo session) =
           (case raise_for_status resp of
              Some e \<Rightarrow>
                Inl (PollsFetchError
                       (''GET /polls failed ('' @ (str_int (status_code resp) @ (''): ''
                          @ text_or_str_e resp e)))
                       (Some e))
            | None \<Rightarrow>
                Inl (PollsFetchError (''Unexpected status code '' @ str_int (status_code resp))
                       None))"
  using assms
  by (auto simp: fetch_polls_def text_or_str_e_def Let_def split: option.splits)

lemma cast_vote_not_200:
  assumes "fst (cast_vote rq poll_id option_id base_url tmo session tok) = [req]"
    and "session_or_requests session rq req = Inr resp"
    and "status_code resp \<noteq> 200"
  shows "snd (cast_vote rq poll_id option_id base_url tmo session tok) =
           (case raise_for_status resp of
              Some e \<Rightarrow>
                Inl (VotingError
                       ((''POST /polls/'' @ str_int poll_id @ ''/vote failed ('')
                          @ (str_int (status_code resp) @ (''): '' @ text_or_str_e resp e)))
                       (Some e))
            | None \<Rightarrow>
                Inl (VotingError (''Unexpected status code '' @ str_int (status_code resp))
                       None))"
  using assms
  by (auto simp: cast_vote_def text_or_str_e_def Let_def split: option.splits)

lemma get_poll_results_not_200:
  assumes "fst (get_poll_results rq poll_id base_url tmo session) = [req]"
    and "session_or_requests session rq req = Inr resp"
    and "status_code resp \<noteq> 200"
  shows "snd (get_poll_results rq poll_id base_url tmo session) =
           (case raise_for_status resp of
              Some e \<Rightarrow>
                Inl (PollResultsFetchError
                       ((''GET /polls/'' @ str_int poll_id @ ''/results failed ('')
                          @ (str_int (status_code resp) @ (''): '' @ text_or_str_e resp e)))
                       (Some e))
            | None \<Rightarrow>
                Inl (PollResultsFetchError
                       (''Unexpected status code '' @ str_int (status_code resp))
                       None))"
  using assms
  by (auto simp: get_poll_results_def text_or_str_e_def Let_def split: option.splits)







text \<open>
  Claim C6, as the code has it. On a response whose status is not 200 and on which
  \<^verbatim>\<open>raise_for_status\<close> raises, the message of each operation ends with the response
  body stripped of surrounding whitespace when that is not empty, and with the text of
  the exception otherwise. On a response whose status is not 200 and on which
  \<^verbatim>\<open>raise_for_status\<close> returns, the message is \<^verbatim>\<open>Unexpected status code\<close> followed by
  the status.
\<close>

theorem error_message_text:
  "(\<forall>req resp e.
      fst (fetch_polls rq skip limit base_url tmo session) = [req]
      \<and> session_or_requests session rq req = Inr resp \<and> status_code resp \<noteq> 200
      \<and> raise_for_status resp = Some e
      \<longrightarrow> snd (fetch_polls rq skip limit base_url tmo session)
            = Inl (PollsFetchError
                     (''GET /polls failed ('' @ str_int (status_code resp) @ ''): ''
                        @ text_or_str_e resp e)
                     (Some e)))
   \<and> (\<forall>req resp e.
      fst (cast_vote rq poll_id option_id base_url tmo session tok) = [req]
      \<and> session_or_requests session rq req = Inr resp \<and> status_code resp \<noteq> 200
      \<and> raise_for_status resp = Some e
      \<longrightarrow> snd (cast_vote rq poll_id option_id base_url tmo session tok)
            = Inl (VotingError
                     (''POST /polls/'' @ str_int poll_id @ ''/vote failed (''
                        @ str_int (status_code resp) @ ''): '' @ text_or_str_e resp e)
                     (Some e)))
   \<and> (\<forall>req resp e.
      fst (get_poll_results rq poll_id base_url tmo session) = [req]
      \<and> session_or_requests session rq req = Inr resp \<and> status_code resp \<noteq> 200
      \<and> raise_for_status resp = Some e
      \<longrightarrow> snd (get_poll_results rq poll_id base_url tmo session)
            = Inl (PollResultsFetchError
                     (''GET /polls/'' @ str_int poll_id @ ''/results failed (''
                        @ str_int (status_code resp) @ ''): '' @ text_or_str_e resp e)
                     (Some e)))
   \<and> (\<forall>req resp.
      fst (fetch_polls rq skip limit base_url tmo session) = [req]
      \<and> session_or_requests session rq req = Inr resp \<and> status_code resp \<noteq> 200
      \<and> raise_for_status resp = None
      \<longrightarrow> snd (fetch_polls rq skip limit base_url tmo session)
            = Inl (PollsFetchError (''Unexpected status code '' @ str_int (status_code resp)) None))
   \<and> (\<forall>req resp.
      fst (cast_vote rq poll_id option_id base_url tmo session tok) = [req]
      \<and> session_or_requests session rq req = Inr resp \<and> status_code resp \<noteq> 200
      \<and> raise_for_status resp = None
      \<longrightarrow> snd (cast_vote rq poll_id option_id base_url tmo session tok)
            = Inl (VotingError (''Unexpected status code '' @ str_int (status_code resp)) None))
   \<and> (\<forall>req resp.
      fst (get_poll_results rq poll_id base_url tmo session) = [req]
      \<and> session_or_requests session rq req = Inr resp \<and> status_code resp \<noteq> 200
      \<and> raise_for_status resp = None
      \<longrightarrow> snd (get_poll_results rq poll_id base_url tmo session)
            = Inl (PollResultsFetchError
                     (''Unexpected status code '' @ str_int (status_code resp)) None))"
proof (intro conjI allI impI)
  fix req resp e
  assume "fst (fetch_polls rq skip limit base_url tmo session) = [req]
      \<and> session_or_requests session rq req = Inr resp \<and> status_code resp \<noteq> 200
      \<and> raise_for_status resp = Some e"
  with fetch_polls_not_200 [of rq skip limit base_url tmo session req resp]
  show "snd (fetch_polls rq skip limit base_url tmo session)
            = Inl (PollsFetchError
                     (''GET /polls failed ('' @ str_int (status_code resp) @ ''): ''
                        @ text_or_str_e resp e)
                     (Some e))"
    by simp
next
  fix req resp e
  assume "fst (cast_vote rq poll_id option_id base_url tmo session tok) = [req]
      \<and> session_or_requests session rq req = Inr resp \<and> status_code resp \<noteq> 200
      \<and> raise_for_status resp = Some e"
  with cast_vote_not_200 [of rq poll_id option_id base_url tmo session tok req resp]
  show "snd (cast_vote rq poll_id option_id base_url tmo session tok)
            = Inl (VotingError
                     (''POST /polls/'' @ str_int poll_id @ ''/vote failed (''
                        @ str_int (status_code resp) @ ''): '' @ text_or_str_e resp e)
                     (Some e))"
    by simp
next
  fix req resp e
  assume "fst (get_poll_results rq poll_id base_url tmo session) = [req]
      \<and> session_or_requests session rq req = Inr resp \<and> status_code resp \<noteq> 200
      \<and> raise_for_status resp = Some e"
  with get_poll_results_not_200 [of rq poll_id base_url tmo session req resp]
  show "snd (get_poll_results rq poll_id base_url tmo session)
            = Inl (PollResultsFetchError
                     (''GET /polls/'' @ str_int poll_id @ ''/results failed (''
                        @ str_int (status_code resp) @ ''): '' @ text_or_str_e resp e)
                     (Some e))"
    by simp
next
  fix req resp
  assume "fst (fetch_polls rq skip limit base_url tmo session) = [req]
      \<and> session_or_requests session rq req = Inr resp \<and> status_code resp \<noteq> 200
      \<and> raise_for_status resp = None"
  with fetch_polls_not_200 [of rq skip limit base_url tmo session req resp]
  show "snd (fetch_polls rq skip limit base_url tmo session)
            = Inl (PollsFetchError (''Unexpected status code '' @ str_int (status_code resp)) None)"
    by simp
next
  fix req resp
  assume "fst (cast_vote rq poll_id option_id base_url tmo session tok) = [req]
      \<and> session_or_requests session rq req = Inr resp \<and> status_code resp \<noteq> 200
      \<and> raise_for_status resp = None"
  with cast_vote_not_200 [of rq poll_id option_id base_url tmo session tok req resp]
  show "snd (cast_vote rq poll_id option_id base_url tmo session tok)
            = Inl (VotingError (''Unexpected status code '' @ str_int (status_code resp)) None)"
    by simp
next
  fix req resp
  assume "fst (get_poll_results rq poll_id base_url tmo session) = [req]
      \<and> session_or_requests session rq req = Inr resp \<and> status_code resp \<noteq> 200
      \<and> raise_for_status resp = None"
  with get_poll_results_not_200 [of rq poll_id base_url tmo session req resp]
  show "snd (get_poll_results rq poll_id base_url tmo session)
            = Inl (PollResultsFetchError
                     (''Unexpected status code '' @ str_int (status_code resp)) None)"
    by simp
qed

text \<open>
  A 404 with a body, a 500 whose body is blank, and a 201: the stripped body, the text
  of the exception, and the message for an unexpected status.
\<close>

theorem error_message_text_witness:
  "snd (fetch_polls (always not_found_404) 0 10 default_base_url (10::int) None)
     = Inl (PollsFetchError ''GET /polls failed (404): Poll not found''
              (Some (HTTPError ''404 Client Error: Not Found'')))
   \<and> snd (cast_vote (always blank_500) 1 5 default_base_url (10::int) None None)
     = Inl (VotingError
              ''POST /polls/1/vote failed (500): 500 Server Error: Internal Server Error''
              (Some (HTTPError ''500 Server Error: Internal Server Error'')))
   \<and> snd (get_poll_results (always created_201) 1 default_base_url (10::int) None)
     = Inl (PollResultsFetchError ''Unexpected status code 201'' None)"
proof -
  let ?e4 = "HTTPError ''404 Client Error: Not Found''"
  let ?e5 = "HTTPError ''500 Server Error: Internal Server Error''"
  have a: "snd (fetch_polls (always not_found_404) 0 10 default_base_url (10::int) None)
     = Inl (PollsFetchError ''GET /polls failed (404): Poll not found'' (Some ?e4))"
  proof -
    have "\<exists>req. fst (fetch_polls (always not_found_404) 0 10 default_base_url (10::int) None) = [req]"
      by (simp add: fetch_polls_def Let_def)
    moreover have "\<And>req. session_or_requests None (always not_found_404 :: int transport) req
                      = Inr not_found_404"
      by (simp add: always_def)
    moreover have "status_code not_found_404 \<noteq> 200" "raise_for_status not_found_404 = Some ?e4"
      by (simp_all add: not_found_404_def)
    ultimately have "snd (fetch_polls (always not_found_404) 0 10 default_base_url (10::int) None)
            = Inl (PollsFetchError
                     (''GET /polls failed ('' @ str_int (status_code not_found_404) @ ''): ''
                        @ text_or_str_e not_found_404 ?e4)
                     (Some ?e4))"
      using error_message_text [of "always not_found_404" 0 10 default_base_url 10 None 1 5 None]
      by blast
    moreover have "str_int (status_code not_found_404) = ''404''"
      and "text_or_str_e not_found_404 ?e4 = ''Poll not found''"
      by code_simp+
    ultimately show ?thesis by simp
  qed
  have b: "snd (cast_vote (always blank_500) 1 5 default_base_url (10::int) None None)
     = Inl (VotingError
              ''POST /polls/1/vote failed (500): 500 Server Error: Internal Server Error''
              (Some ?e5))"
  proof -
    have "\<exists>req. fst (cast_vote (always blank_500) 1 5 default_base_url (10::int) None None) = [req]"
      by (simp add: cast_vote_def Let_def)
    moreover have "\<And>req. session_or_requests None (always blank_500 :: int transport) req
                      = Inr blank_500"
      by (simp add: always_def)
    moreover have "status_code blank_500 \<noteq> 200" "raise_for_status blank_500 = Some ?e5"
      by (simp_all add: blank_500_def)
    ultimately have "snd (cast_vote (always blank_500) 1 5 default_base_url (10::int) None None)
            = Inl (VotingError
                     (''POST /polls/'' @ str_int 1 @ ''/vote failed (''
                        @ str_int (status_code blank_500) @ ''): '' @ text_or_str_e blank_500 ?e5)
                     (Some ?e5))"
      using error_message_text [of "always blank_500" 0 10 default_base_url 10 None 1 5 None]
      by blast
    moreover have "str_int (status_code blank_500) = ''500''" and "str_int 1 = ''1''"
      and "text_or_str_e blank_500 ?e5 = ''500 Server Error: Internal Server Error''"
      by code_simp+
    ultimately show ?thesis by simp
  qed
  have c: "snd (get_poll_results (always created_201) 1 default_base_url (10::int) None)
     = Inl (PollResultsFetchError ''Unexpected status code 201'' None)"
  proof -
    have "\<exists>req. fst (get_poll_results (always created_201) 1 default_base_url (10::int) None) = [req]"
      by (simp add: get_poll_results_def Let_def)
    moreover have "\<And>req. session_or_requests None (always created_201 :: int transport) req
                      = Inr created_201"
      by (simp add: always_def)
    moreover have "status_code created_201 \<noteq> 200" "raise_for_status created_201 = None"
      by (simp_all add: created_201_def)
    ultimately have "snd (get_poll_results (always created_201) 1 default_base_url (10::int) None)
            = Inl (PollResultsFetchError
                     (''Unexpected status code '' @ str_int (status_code created_201)) None)"
      using error_message_text [of "always created_201" 0 10 default_base_url 10 None 1 5 None]
      by blast
    moreover have "str_int (status_code created_201) = ''201''"
      by code_simp
    ultimately show ?thesis by simp
  qed
  from a b c show ?thesis by simp
qed

text \<open>
  The claim as the specification words it fails twice: the body of two spaces is not
  empty, yet the message of \<^verbatim>\<open>cast_vote\<close> takes the text of the exception; and on the
  201, where \<^verbatim>\<open>raise_for_status\<close> returns, the message of \<^verbatim>\<open>get_poll_results\<close> takes
  neither the body \<^verbatim>\<open>created\<close> nor the text of an exception.
\<close>

theorem body_not_always_the_text:
  "snd (cast_vote (always blank_500) 1 5 default_base_url (10::int) None None)
     = Inl (VotingError
              ''POST /polls/1/vote failed (500): 500 Server Error: Internal Server Error''
              (Some (HTTPError ''500 Server Error: Internal Server Error'')))
   \<and> resp_text blank_500 = Some ''  ''
   \<and> snd (get_poll_results (always created_201) 1 default_base_url (10::int) None)
     = Inl (PollResultsFetchError ''Unexpected status code 201'' None)
   \<and> resp_text created_201 = Some ''created''
   \<and> raise_for_status created_201 = None"
  by code_simp

end
